theory Spec2Isabelle
  imports Complex_Main "HOL-Library.Sublist"
begin

section \<open>JavaScript values\<close>

text \<open>
  A JavaScript number is a finite value or one of the three special values of IEEE 754.
  Finite values are kept as exact rationals: rounding to the nearest double and the sign
  of zero are not modelled. The special values and the operations that produce them
  (\<open>0 / 0\<close>, \<open>x / 0\<close>, arithmetic on \<open>NaN\<close>) are written out.
\<close>

datatype jsnum = Fin rat | PosInf | NegInf | NaN

fun is_finite :: "jsnum \<Rightarrow> bool" where
  "is_finite (Fin _) = True"
| "is_finite _ = False"

fun js_neg :: "jsnum \<Rightarrow> jsnum" where
  "js_neg (Fin a) = Fin (- a)"
| "js_neg PosInf = NegInf"
| "js_neg NegInf = PosInf"
| "js_neg NaN = NaN"

definition signed_inf :: "rat \<Rightarrow> jsnum" where
  "signed_inf a = (if a = 0 then NaN else if 0 < a then PosInf else NegInf)"

fun js_mul :: "jsnum \<Rightarrow> jsnum \<Rightarrow> jsnum" where
  "js_mul NaN _ = NaN"
| "js_mul _ NaN = NaN"
| "js_mul (Fin a) (Fin b) = Fin (a * b)"
| "js_mul (Fin a) PosInf = signed_inf a"
| "js_mul (Fin a) NegInf = signed_inf (- a)"
| "js_mul PosInf (Fin b) = signed_inf b"
| "js_mul NegInf (Fin b) = signed_inf (- b)"
| "js_mul PosInf PosInf = PosInf"
| "js_mul PosInf NegInf = NegInf"
| "js_mul NegInf PosInf = NegInf"
| "js_mul NegInf NegInf = PosInf"

fun js_sub :: "jsnum \<Rightarrow> jsnum \<Rightarrow> jsnum" where
  "js_sub NaN _ = NaN"
| "js_sub _ NaN = NaN"
| "js_sub (Fin a) (Fin b) = Fin (a - b)"
| "js_sub (Fin a) PosInf = NegInf"
| "js_sub (Fin a) NegInf = PosInf"
| "js_sub PosInf PosInf = NaN"
| "js_sub NegInf NegInf = NaN"
| "js_sub PosInf _ = PosInf"
| "js_sub NegInf _ = NegInf"

text \<open>Division never raises in JavaScript: a zero divisor gives \<open>NaN\<close> or an infinity.\<close>

fun js_div :: "jsnum \<Rightarrow> jsnum \<Rightarrow> jsnum" where
  "js_div NaN _ = NaN"
| "js_div _ NaN = NaN"
| "js_div (Fin a) (Fin b) = (if b = 0 then signed_inf a else Fin (a / b))"
| "js_div (Fin a) _ = Fin 0"
| "js_div PosInf (Fin b) = (if 0 \<le> b then PosInf else NegInf)"
| "js_div NegInf (Fin b) = (if 0 \<le> b then NegInf else PosInf)"
| "js_div _ _ = NaN"

text \<open>
  The values the program handles. \<open>JObj\<close> is a plain object (an object literal or a
  decoded JSON object) with its own properties in order; \<open>JBuiltin\<close> stands for a
  member that a plain object inherits from \<open>Object.prototype\<close>.
\<close>

datatype jsval =
    JUndefined
  | JNull
  | JBool bool
  | JNum jsnum
  | JStr string
  | JObj "(string \<times> jsval) list"
  | JBuiltin string

fun truthy :: "jsval \<Rightarrow> bool" where
  "truthy JUndefined = False"
| "truthy JNull = False"
| "truthy (JBool b) = b"
| "truthy (JNum (Fin a)) = (a \<noteq> 0)"
| "truthy (JNum NaN) = False"
| "truthy (JNum _) = True"
| "truthy (JStr s) = (s \<noteq> [])"
| "truthy (JObj _) = True"
| "truthy (JBuiltin _) = True"

definition js_or :: "jsval \<Rightarrow> jsval \<Rightarrow> jsval" where
  "js_or a b = (if truthy a then a else b)"

definition js_and :: "jsval \<Rightarrow> jsval \<Rightarrow> jsval" where
  "js_and a b = (if truthy a then b else a)"

definition object_prototype :: "string list" where
  "object_prototype =
     [''constructor'', ''hasOwnProperty'', ''isPrototypeOf'', ''propertyIsEnumerable'',
      ''toLocaleString'', ''toString'', ''valueOf'', ''__proto__'',
      ''__defineGetter__'', ''__defineSetter__'', ''__lookupGetter__'', ''__lookupSetter__'']"

text \<open>
  Property access \<open>obj.name\<close> and \<open>obj[name]\<close> on a plain object: an own property, else
  a member of \<open>Object.prototype\<close>, else \<open>undefined\<close>. Every receiver in this program is
  a plain object, so no equation is given for the other values.
\<close>

fun get_prop :: "jsval \<Rightarrow> string \<Rightarrow> jsval" where
  "get_prop (JObj kvs) name =
     (case map_of kvs name of
        Some v \<Rightarrow> v
      | None \<Rightarrow> if name \<in> set object_prototype then JBuiltin name else JUndefined)"

text \<open>
  The operands of the arithmetic in this program are numbers already (results of
  \<open>parseFloat\<close> and the table entry for \<open>US\<close>), the only case of \<open>ToNumber\<close> given here.
\<close>

fun to_number :: "jsval \<Rightarrow> jsnum" where
  "to_number (JNum x) = x"

subsection \<open>parseFloat\<close>

definition is_space :: "char \<Rightarrow> bool" where
  "is_space c = (c \<in> set [CHR 0x09, CHR 0x0A, CHR 0x0B, CHR 0x0C, CHR 0x0D, CHR 0x20])"

definition is_digit :: "char \<Rightarrow> bool" where
  "is_digit c = (c \<in> set ''0123456789'')"

definition digit_val :: "char \<Rightarrow> nat" where
  "digit_val c = of_char c - 48"

definition digits_val :: "string \<Rightarrow> nat" where
  "digits_val ds = foldl (\<lambda>a c. 10 * a + digit_val c) 0 ds"

definition starts_with :: "string \<Rightarrow> string \<Rightarrow> bool" where
  "starts_with p s = (take (length p) s = p)"

definition scale10 :: "rat \<Rightarrow> int \<Rightarrow> rat" where
  "scale10 m e = (if 0 \<le> e then m * 10 ^ nat e else m / 10 ^ nat (- e))"

text \<open>The exponent part \<open>e\<close>, \<open>e+\<close> or \<open>e-\<close> counts only when a digit follows it.\<close>

definition exponent_part :: "string \<Rightarrow> int" where
  "exponent_part s =
     (if s \<noteq> [] \<and> (hd s = CHR ''e'' \<or> hd s = CHR ''E'') then
        (let t = tl s;
             neg = (t \<noteq> [] \<and> hd t = CHR ''-'');
             u = (if t \<noteq> [] \<and> (hd t = CHR ''+'' \<or> hd t = CHR ''-'') then tl t else t);
             ds = takeWhile is_digit u
         in if ds = [] then 0
            else if neg then - int (digits_val ds) else int (digits_val ds))
      else 0)"

text \<open>The longest prefix that is a \<open>StrUnsignedDecimalLiteral\<close>, or \<open>NaN\<close> without one.\<close>

definition str_unsigned_decimal :: "string \<Rightarrow> jsnum" where
  "str_unsigned_decimal s =
     (if starts_with ''Infinity'' s then PosInf
      else
        (let ip = takeWhile is_digit s;
             r1 = dropWhile is_digit s;
             has_dot = (r1 \<noteq> [] \<and> hd r1 = CHR ''.'');
             fp = (if has_dot then takeWhile is_digit (tl r1) else []);
             r2 = (if has_dot then dropWhile is_digit (tl r1) else r1)
         in if ip = [] \<and> fp = [] then NaN
            else Fin (scale10 (of_nat (digits_val (ip @ fp)))
                        (exponent_part r2 - int (length fp)))))"

definition parseFloat_string :: "string \<Rightarrow> jsnum" where
  "parseFloat_string s =
     (let t = dropWhile is_space s
      in if t \<noteq> [] \<and> hd t = CHR ''-'' then js_neg (str_unsigned_decimal (tl t))
         else if t \<noteq> [] \<and> hd t = CHR ''+'' then str_unsigned_decimal (tl t)
         else str_unsigned_decimal t)"

text \<open>
  \<open>parseFloat\<close> converts its argument to a string first. A number prints to a string that
  parses back to itself; \<open>undefined\<close>, \<open>null\<close>, booleans, objects and functions print to
  text with no numeric prefix.
\<close>

fun parseFloat :: "jsval \<Rightarrow> jsnum" where
  "parseFloat (JStr s) = parseFloat_string s"
| "parseFloat (JNum x) = x"
| "parseFloat _ = NaN"

section \<open>Configuration\<close>

text \<open>
  \<open>config\<close> is built once from the process environment:
  \<^verbatim>\<open>
  export const config = {
    port: process.env.APP_PORT || 8080,
    nodeEnv: process.env.NODE_ENV || 'development',
    features: { enableDiscountOverrides: process.env.ENABLE_DISCOUNT_OVERRIDES === 'True' }
  };
  \<close>
\<close>

definition env_get :: "(string \<rightharpoonup> string) \<Rightarrow> string \<Rightarrow> jsval" where
  "env_get env name = (case env name of Some s \<Rightarrow> JStr s | None \<Rightarrow> JUndefined)"

definition config :: "(string \<rightharpoonup> string) \<Rightarrow> jsval" where
  "config env =
     JObj [(''port'', js_or (env_get env ''APP_PORT'') (JNum (Fin 8080))),
           (''nodeEnv'', js_or (env_get env ''NODE_ENV'') (JStr ''development'')),
           (''features'',
              JObj [(''enableDiscountOverrides'',
                     JBool (env_get env ''ENABLE_DISCOUNT_OVERRIDES'' = JStr ''True''))])]"

section \<open>Pricing engine: the discount table\<close>

definition discounts :: jsval where
  "discounts =
     JObj [(''US'', JNum (Fin (10 / 100))),
           (''EU'', JNum (Fin (15 / 100))),
           (''APAC'', JNum (Fin (12 / 100)))]"

definition getDiscountForRegion :: "string \<Rightarrow> jsval" where
  "getDiscountForRegion region = js_or (get_prop discounts region) (JNum (Fin 0))"

text \<open>\<^verbatim>\<open>const discountRate = getDiscountForRegion('US')\<close>, the only call in the program.\<close>

definition discountRate :: jsnum where
  "discountRate = to_number (getDiscountForRegion ''US'')"

section \<open>Reference resolver and unit of work\<close>

text \<open>
  The sources call the unit of work of the SDK (\<open>newUnitOfWork\<close>, \<open>registerCreate\<close>,
  \<open>toApiString\<close>, \<open>commitUnitOfWork\<close>) and do not contain its code. This section and
  the next model it from the specification, sections 3, 4 and 7.
\<close>

text \<open>
  Modelled from the spec: the pending reference of the missing unit of work, "an opaque
  unique token" and "the declared record-type tag it stands in for".
\<close>

record pending_reference =
  token :: nat
  record_type :: string

text \<open>
  Modelled from the spec: the field values of an operation of the missing unit of work,
  "a tagged union of scalar kinds (string, number, boolean, reference-placeholder)".
  \<open>Lit\<close> carries a JavaScript scalar, \<open>Placeholder\<close> the token of an embedded pending
  reference.
\<close>

datatype opval = Lit jsval | Placeholder nat

text \<open>
  Modelled from the spec: the operation of the missing unit of work, "kind (create |
  update | delete), target record-type tag, field mapping" and "for update/delete a
  concrete identifier".
\<close>

datatype op_kind = Create | Update | Delete

record operation =
  op_kind :: op_kind
  op_type :: string
  op_fields :: "(string \<times> opval) list"
  op_id :: "opval option"

text \<open>
  Modelled from the spec: the batch of the missing unit of work, "an ordered sequence of
  Operations (order reflects registration order)", each kept with the handle its
  registration returned, and the state of the batch, \<open>OPEN\<close>, \<open>COMMIT_PENDING\<close>,
  \<open>COMMITTED\<close> or \<open>FAILED\<close>.
\<close>

datatype batch_state = OPEN | COMMIT_PENDING | COMMITTED | FAILED

record unit_of_work =
  entries :: "(pending_reference \<times> operation) list"
  state :: batch_state

text \<open>
  Modelled from the spec: the outcome of one operation in the result of the missing
  commit, "{success: true, id: persisted identifier}" or "{success: false, errors: ordered
  list of structured error records}".
\<close>

record store_error =
  error_code :: string
  error_text :: string

datatype outcome = Success string | Failure "store_error list"

text \<open>
  Modelled from the spec: the errors of the missing unit of work, named in sections 4.2
  and 7. \<open>BackingStoreError\<close> is raised when "the store executed the transaction and
  reported failure"; it carries the outcome of every operation ("per-operation error
  detail is available").
\<close>

datatype uow_error =
    BatchAlreadyCommittedError
  | BatchTooLargeError
  | ValidationError
  | TransportError
  | ProtocolError
  | BackingStoreError "(pending_reference \<times> outcome) list"

text \<open>
  Modelled from the spec: the SDK's \<open>newUnitOfWork()\<close>, missing from the sources; the
  batch is "created empty".
\<close>

definition newUnitOfWork :: unit_of_work where
  "newUnitOfWork = \<lparr>entries = [], state = OPEN\<rparr>"

text \<open>
  Modelled from the spec: \<open>create_reference(record_type)\<close> of the missing reference
  resolver, which "allocates a fresh token scoped to the calling batch"; the token is a
  counter of the batch, its number of entries.
\<close>

definition create_reference :: "unit_of_work \<Rightarrow> string \<Rightarrow> pending_reference" where
  "create_reference uow rtype = \<lparr>token = length (entries uow), record_type = rtype\<rparr>"

text \<open>
  Modelled from the spec: \<open>embed(reference)\<close>, the SDK's \<open>toApiString()\<close>, missing from
  the sources. It "produces a value usable inside another Operation's field map in place
  of a real identifier", distinguishable from a literal identifier string.
\<close>

definition toApiString :: "pending_reference \<Rightarrow> opval" where
  "toApiString r = Placeholder (token r)"

text \<open>
  Modelled from the spec: \<open>register(operation)\<close> of the missing unit of work. It "appends
  an Operation to the batch; returns a handle", and "must reject registration after
  commit has been invoked on the same batch (fails with BatchAlreadyCommittedError)".
\<close>

definition register :: "unit_of_work \<Rightarrow> operation \<Rightarrow> uow_error + pending_reference \<times> unit_of_work" where
  "register uow opn =
     (if state uow \<noteq> OPEN then Inl BatchAlreadyCommittedError
      else
        (let h = create_reference uow (op_type opn)
         in Inr (h, uow\<lparr>entries := entries uow @ [(h, opn)]\<rparr>)))"

text \<open>
  Modelled from the spec: the SDK call \<^verbatim>\<open>unitOfWork.registerCreate({type, fields})\<close>,
  missing from the sources, as the registration of a create operation.
\<close>

definition registerCreate ::
  "unit_of_work \<Rightarrow> string \<Rightarrow> (string \<times> opval) list \<Rightarrow> uow_error + pending_reference \<times> unit_of_work" where
  "registerCreate uow rtype flds =
     register uow \<lparr>op_kind = Create, op_type = rtype, op_fields = flds, op_id = None\<rparr>"

text \<open>The handles that the registrations of a batch returned, in registration order.\<close>

definition handles :: "unit_of_work \<Rightarrow> pending_reference list" where
  "handles uow = map fst (entries uow)"

subsection \<open>Commit\<close>

text \<open>
  Modelled from the spec: the wire format of the missing commit, "substituting every
  embedded PendingReference with the store's own cross-reference syntax". One operation
  on the wire carries its reference token and its fields; the store answers with a
  transport failure or with results keyed by reference token.
\<close>

datatype wire_val = WLit jsval | WCrossRef nat

record wire_op =
  w_ref :: nat
  w_kind :: op_kind
  w_type :: string
  w_fields :: "(string \<times> wire_val) list"
  w_id :: "wire_val option"

datatype store_reply = TransportFailure | Response "(nat \<times> outcome) list"

fun substitute :: "opval \<Rightarrow> wire_val" where
  "substitute (Lit v) = WLit v"
| "substitute (Placeholder t) = WCrossRef t"

definition serialize_op :: "pending_reference \<times> operation \<Rightarrow> wire_op" where
  "serialize_op e =
     \<lparr>w_ref = token (fst e),
      w_kind = op_kind (snd e),
      w_type = op_type (snd e),
      w_fields = map (\<lambda>(k, v). (k, substitute v)) (op_fields (snd e)),
      w_id = map_option substitute (op_id (snd e))\<rparr>"

definition serialize :: "unit_of_work \<Rightarrow> wire_op list" where
  "serialize uow = map serialize_op (entries uow)"

text \<open>The tokens of the pending references embedded in an operation.\<close>

fun placeholders :: "opval list \<Rightarrow> nat list" where
  "placeholders [] = []"
| "placeholders (Placeholder t # vs) = t # placeholders vs"
| "placeholders (Lit _ # vs) = placeholders vs"

definition embedded_refs :: "operation \<Rightarrow> nat list" where
  "embedded_refs opn =
     placeholders (map snd (op_fields opn) @ (case op_id opn of None \<Rightarrow> [] | Some v \<Rightarrow> [v]))"

text \<open>
  Modelled from the spec: the reference check of the missing commit, "If any operation in
  B is registered referencing a PendingReference not created within B, register or commit
  fails with ValidationError".
\<close>

definition references_ok :: "unit_of_work \<Rightarrow> bool" where
  "references_ok uow =
     list_all (\<lambda>e. list_all (\<lambda>t. t \<in> set (map token (handles uow))) (embedded_refs (snd e)))
       (entries uow)"

text \<open>
  Modelled from the spec: the result correlation of the missing commit, "walk results in
  registration order, re-associating each result with its originating handle; any handle
  absent from the response is treated as a hard ProtocolError". \<open>None\<close> is the absence.
\<close>

fun correlate :: "pending_reference list \<Rightarrow> (nat \<times> outcome) list \<Rightarrow> (pending_reference \<times> outcome) list option" where
  "correlate [] resp = Some []"
| "correlate (h # hs) resp =
     (case map_of resp (token h) of
        None \<Rightarrow> None
      | Some r \<Rightarrow> (case correlate hs resp of None \<Rightarrow> None | Some rest \<Rightarrow> Some ((h, r) # rest)))"

fun is_success :: "outcome \<Rightarrow> bool" where
  "is_success (Success _) = True"
| "is_success (Failure _) = False"

text \<open>
  What one run of the commit gives: the error or the result mapping (its entries in
  registration order), the batch afterwards, and the requests sent over the network.
\<close>

record commit_run =
  commit_result :: "uow_error + (pending_reference \<times> outcome) list"
  batch_after :: unit_of_work
  requests :: "wire_op list list"

text \<open>
  Modelled from the spec: \<open>commit(batch)\<close>, the SDK's \<open>commitUnitOfWork\<close>, missing from
  the sources. It begins "Validate batch is non-empty and below the operation-count
  ceiling; fails fast with BatchTooLargeError otherwise, without any network call". The
  ceiling is a parameter, and so is the backing store, which answers the one request.
  Validation comes first and leaves the batch as it was ("validating the same malformed
  batch twice yields the same ValidationError kind both times"); a batch that has left
  \<open>OPEN\<close> is refused without a network call; a transport failure gives
  \<open>TransportError\<close>, a response that lacks a handle \<open>ProtocolError\<close>, a response in
  which the store reports a failed operation \<open>BackingStoreError\<close> with the outcomes of
  all operations; otherwise the result mapping is returned.
\<close>

definition commit :: "nat \<Rightarrow> (wire_op list \<Rightarrow> store_reply) \<Rightarrow> unit_of_work \<Rightarrow> commit_run" where
  "commit op_ceiling store uow =
     (if entries uow = [] \<or> op_ceiling \<le> length (entries uow) then
        \<lparr>commit_result = Inl BatchTooLargeError, batch_after = uow, requests = []\<rparr>
      else if \<not> references_ok uow then
        \<lparr>commit_result = Inl ValidationError, batch_after = uow, requests = []\<rparr>
      else if state uow \<noteq> OPEN then
        \<lparr>commit_result = Inl BatchAlreadyCommittedError, batch_after = uow, requests = []\<rparr>
      else
        (let wire = serialize uow
         in case store wire of
              TransportFailure \<Rightarrow>
                \<lparr>commit_result = Inl TransportError, batch_after = uow\<lparr>state := FAILED\<rparr>,
                 requests = [wire]\<rparr>
            | Response resp \<Rightarrow>
                (case correlate (handles uow) resp of
                   None \<Rightarrow>
                     \<lparr>commit_result = Inl ProtocolError, batch_after = uow\<lparr>state := FAILED\<rparr>,
                      requests = [wire]\<rparr>
                 | Some res \<Rightarrow>
                     if list_all (\<lambda>e. is_success (snd e)) res then
                       \<lparr>commit_result = Inr res, batch_after = uow\<lparr>state := COMMITTED\<rparr>,
                        requests = [wire]\<rparr>
                     else
                       \<lparr>commit_result = Inl (BackingStoreError res),
                        batch_after = uow\<lparr>state := FAILED\<rparr>, requests = [wire]\<rparr>)))"

section \<open>Pricing engine: generateQuote\<close>

text \<open>
  A thrown \<open>Error\<close>: its message and its \<open>statusCode\<close> property, \<open>None\<close> when the property
  was never set.
\<close>

record jserror =
  message :: string
  statusCode :: "nat option"

definition js_Error :: "string \<Rightarrow> jserror" where
  "js_Error msg = \<lparr>message = msg, statusCode = None\<rparr>"

text \<open>
  What the SDK's data API gives the caller. A query resolves to the records (each the
  \<open>fields\<close> object of one record) or rejects; \<open>commitUnitOfWork\<close> resolves to the result
  \<open>Map\<close>, here its entries in insertion order with the handle as key, or rejects.
\<close>

datatype query_outcome = QueryThrows jserror | QueryReturns "jsval list"

datatype commit_outcome = CommitThrows jserror | CommitReturns "(pending_reference \<times> outcome) list"

record org =
  query :: "string \<Rightarrow> query_outcome"
  commitUnitOfWork :: "unit_of_work \<Rightarrow> commit_outcome"

text \<open>The calls made on \<open>org.dataApi\<close>, in order.\<close>

datatype sdk_call = Query string | NewUnitOfWork | CommitUnitOfWork unit_of_work

record quote_request =
  opportunityId :: string

record quote_response =
  quoteId :: jsval

text \<open>\<open>result.id\<close> of an entry of the result map: a failed entry has no \<open>id\<close>.\<close>

fun result_id :: "outcome \<Rightarrow> jsval" where
  "result_id (Success i) = JStr i"
| "result_id (Failure _) = JUndefined"

text \<open>
  Modelled from the spec: the \<open>Error\<close> object that the missing unit of work throws for
  an error kind. The specification names the kinds and gives no message text, so the
  message is the name of the kind; for a failure that the store reported it is the first
  reported error in the format the comment in \<open>generateQuote\<close> gives,
  \<^verbatim>\<open>"ERROR_CODE: Error message"\<close>.
\<close>

fun reported_errors :: "(pending_reference \<times> outcome) list \<Rightarrow> store_error list" where
  "reported_errors [] = []"
| "reported_errors ((h, Success i) # rs) = reported_errors rs"
| "reported_errors ((h, Failure es) # rs) = es @ reported_errors rs"

fun uow_error_name :: "uow_error \<Rightarrow> string" where
  "uow_error_name BatchAlreadyCommittedError = ''BatchAlreadyCommittedError''"
| "uow_error_name BatchTooLargeError = ''BatchTooLargeError''"
| "uow_error_name ValidationError = ''ValidationError''"
| "uow_error_name TransportError = ''TransportError''"
| "uow_error_name ProtocolError = ''ProtocolError''"
| "uow_error_name (BackingStoreError res) =
     (case reported_errors res of
        [] \<Rightarrow> ''BackingStoreError''
      | e # es \<Rightarrow> error_code e @ '': '' @ error_text e)"

definition thrown :: "uow_error \<Rightarrow> jserror" where
  "thrown e = js_Error (uow_error_name e)"

fun join :: "string \<Rightarrow> string list \<Rightarrow> string" where
  "join sep [] = []"
| "join sep [x] = x"
| "join sep (x # y # ys) = x @ sep @ join sep (y # ys)"

definition query_fields :: "jsval \<Rightarrow> string list" where
  "query_fields cfg =
     [''Id'', ''Product2Id'', ''Quantity'', ''UnitPrice'', ''PricebookEntryId'']
     @ (if truthy (get_prop (get_prop cfg ''features'') ''enableDiscountOverrides'')
        then [''DiscountOverride__c''] else [])"

definition soql :: "jsval \<Rightarrow> quote_request \<Rightarrow> string" where
  "soql cfg request =
     ''SELECT '' @ join '', '' (query_fields cfg)
     @ '' FROM OpportunityLineItem WHERE OpportunityId = '' @ [CHR 0x27]
     @ opportunityId request @ [CHR 0x27]"

definition not_found_error :: "quote_request \<Rightarrow> jserror" where
  "not_found_error request =
     \<lparr>message = ''No OpportunityLineItems found for Opportunity ID: '' @ opportunityId request,
      statusCode = Some 404\<rparr>"

text \<open>
  \<^verbatim>\<open>
  let effectiveDiscountRate = discountRate;
  if (config.enableDiscountOverrides && record.fields.DiscountOverride__c) {
    effectiveDiscountRate = parseFloat(record.fields.DiscountOverride__c) / 100.0;
  }
  \<close>
\<close>

definition effectiveDiscountRate :: "jsval \<Rightarrow> jsnum \<Rightarrow> jsval \<Rightarrow> jsnum" where
  "effectiveDiscountRate cfg rate flds =
     (if truthy (js_and (get_prop cfg ''enableDiscountOverrides'')
                        (get_prop flds ''DiscountOverride__c''))
      then js_div (parseFloat (get_prop flds ''DiscountOverride__c'')) (Fin 100)
      else rate)"

text \<open>The fields of the QuoteLineItem registered for one queried record.\<close>

definition lineItemFields :: "jsval \<Rightarrow> jsnum \<Rightarrow> pending_reference \<Rightarrow> jsval \<Rightarrow> (string \<times> opval) list" where
  "lineItemFields cfg rate quoteRef flds =
     (let quantity = parseFloat (get_prop flds ''Quantity'');
          unitPrice = parseFloat (get_prop flds ''UnitPrice'');
          discountedPrice =
            js_mul (js_mul quantity unitPrice)
                   (js_sub (Fin 1) (effectiveDiscountRate cfg rate flds))
      in [(''QuoteId'', toApiString quoteRef),
          (''PricebookEntryId'', Lit (get_prop flds ''PricebookEntryId'')),
          (''Quantity'', Lit (JNum quantity)),
          (''UnitPrice'', Lit (JNum (js_div discountedPrice quantity)))])"

text \<open>The \<open>forEach\<close> over the queried records; a throwing registration ends it.\<close>

fun registerLineItems ::
  "jsval \<Rightarrow> jsnum \<Rightarrow> pending_reference \<Rightarrow> jsval list \<Rightarrow> unit_of_work \<Rightarrow> uow_error + unit_of_work" where
  "registerLineItems cfg rate quoteRef [] uow = Inr uow"
| "registerLineItems cfg rate quoteRef (r # rs) uow =
     (case registerCreate uow ''QuoteLineItem'' (lineItemFields cfg rate quoteRef r) of
        Inl e \<Rightarrow> Inl e
      | Inr (h, uow') \<Rightarrow> registerLineItems cfg rate quoteRef rs uow')"

text \<open>
  The batch of one request: the Quote, then one QuoteLineItem per record. It returns the
  Quote's reference and the unit of work.
\<close>

definition buildBatch ::
  "jsval \<Rightarrow> quote_request \<Rightarrow> jsval list \<Rightarrow> uow_error + pending_reference \<times> unit_of_work" where
  "buildBatch cfg request records =
     (case registerCreate newUnitOfWork ''Quote''
             [(''Name'', Lit (JStr ''New Quote'')),
              (''OpportunityId'', Lit (JStr (opportunityId request)))] of
        Inl e \<Rightarrow> Inl e
      | Inr (quoteRef, uow) \<Rightarrow>
          (case registerLineItems cfg discountRate quoteRef records uow of
             Inl e \<Rightarrow> Inl e
           | Inr uow' \<Rightarrow> Inr (quoteRef, uow')))"

text \<open>
  The inner \<open>try\<close>: commit, read the Quote's result through its reference. Whatever is
  thrown there, the missing-result error included, is wrapped with status 400.
\<close>

definition commit_failed :: "jserror \<Rightarrow> jserror" where
  "commit_failed commitError =
     \<lparr>message = ''Failed to create quote: '' @ message commitError, statusCode = Some 400\<rparr>"

definition commitQuote :: "org \<Rightarrow> pending_reference \<Rightarrow> unit_of_work \<Rightarrow> jserror + quote_response" where
  "commitQuote client quoteRef uow =
     (case commitUnitOfWork client uow of
        CommitThrows commitError \<Rightarrow> Inl (commit_failed commitError)
      | CommitReturns results \<Rightarrow>
          (case map_of results quoteRef of
             None \<Rightarrow> Inl (commit_failed (js_Error ''Quote creation result not found in response''))
           | Some quoteResult \<Rightarrow> Inr \<lparr>quoteId = result_id quoteResult\<rparr>))"

text \<open>The body of the outer \<open>try\<close>, with the calls it made.\<close>

definition generateQuote_try ::
  "jsval \<Rightarrow> quote_request \<Rightarrow> org \<Rightarrow> (jserror + quote_response) \<times> sdk_call list" where
  "generateQuote_try cfg request client =
     (case query client (soql cfg request) of
        QueryThrows e \<Rightarrow> (Inl e, [Query (soql cfg request)])
      | QueryReturns records \<Rightarrow>
          if length records = 0 then (Inl (not_found_error request), [Query (soql cfg request)])
          else
            (case buildBatch cfg request records of
               Inl e \<Rightarrow> (Inl (thrown e), [Query (soql cfg request), NewUnitOfWork])
             | Inr (quoteRef, uow) \<Rightarrow>
                 (commitQuote client quoteRef uow,
                  [Query (soql cfg request), NewUnitOfWork, CommitUnitOfWork uow])))"

text \<open>
  The outer \<open>catch\<close>: an error with a truthy \<open>statusCode\<close> is thrown again as it is, any
  other is wrapped with status 500.
\<close>

definition has_status :: "jserror \<Rightarrow> bool" where
  "has_status e = (case statusCode e of None \<Rightarrow> False | Some n \<Rightarrow> n \<noteq> 0)"

definition unexpected :: "jserror \<Rightarrow> jserror" where
  "unexpected e =
     (if has_status e then e
      else \<lparr>message = ''An unexpected error occurred: '' @ message e, statusCode = Some 500\<rparr>)"

definition generateQuote ::
  "jsval \<Rightarrow> quote_request \<Rightarrow> org \<Rightarrow> (jserror + quote_response) \<times> sdk_call list" where
  "generateQuote cfg request client =
     (case generateQuote_try cfg request client of
        (Inl e, calls) \<Rightarrow> (Inl (unexpected e), calls)
      | (Inr r, calls) \<Rightarrow> (Inr r, calls))"

section \<open>Middleware and route\<close>

record http_request =
  headers :: "(string \<times> string) list"
  body :: quote_request

text \<open>A reply: the status code and the payload object given to \<open>reply.send\<close>.\<close>

record reply =
  code :: nat
  payload :: jsval

definition error_payload :: "string \<Rightarrow> jsval" where
  "error_payload msg = JObj [(''error'', JBool True), (''message'', JStr msg)]"

text \<open>
  The preHandler hook. \<open>parseRequest\<close> is the SDK's, a parameter: it decodes the
  \<open>x-client-context\<close> header into the client or throws. The hook sets
  \<open>request.salesforce\<close> or throws a new error with status 401.
\<close>

definition preHandler ::
  "((string \<times> string) list \<Rightarrow> quote_request \<Rightarrow> jserror + org) \<Rightarrow> http_request \<Rightarrow> jserror + org" where
  "preHandler parseRequest request =
     (case parseRequest (headers request) (body request) of
        Inl error \<Rightarrow>
          Inl \<lparr>message = ''Failed to initialize Salesforce client'', statusCode = Some 401\<rparr>
      | Inr parsedRequest \<Rightarrow> Inr parsedRequest)"

text \<open>
  The handler of \<open>POST /generatequote\<close>. \<open>salesforce\<close> is \<open>request.salesforce\<close>, \<open>None\<close>
  while it is the \<open>null\<close> it was decorated with. A returned value is sent as the payload
  of a 200 reply.
\<close>

definition status_or_500 :: "jserror \<Rightarrow> nat" where
  "status_or_500 e = (if has_status e then the (statusCode e) else 500)"

definition handler :: "jsval \<Rightarrow> org option \<Rightarrow> http_request \<Rightarrow> reply" where
  "handler cfg salesforce request =
     (case salesforce of
        None \<Rightarrow> \<lparr>code = 401, payload = error_payload ''Salesforce client not initialized''\<rparr>
      | Some client \<Rightarrow>
          (case fst (generateQuote cfg \<lparr>opportunityId = opportunityId (body request)\<rparr> client) of
             Inr result \<Rightarrow> \<lparr>code = 200, payload = JObj [(''quoteId'', quoteId result)]\<rparr>
           | Inl error \<Rightarrow> \<lparr>code = status_or_500 error, payload = error_payload (message error)\<rparr>))"

text \<open>
  One request through the hook and the handler. The hook's error is thrown to the
  framework, whose error handler (not part of these sources, a parameter) makes the reply.
\<close>

definition handleRequest ::
  "(jserror \<Rightarrow> reply) \<Rightarrow> ((string \<times> string) list \<Rightarrow> quote_request \<Rightarrow> jserror + org) \<Rightarrow> jsval
     \<Rightarrow> http_request \<Rightarrow> reply" where
  "handleRequest errorHandler parseRequest cfg request =
     (case preHandler parseRequest request of
        Inl error \<Rightarrow> errorHandler error
      | Inr client \<Rightarrow> handler cfg (Some client) request)"

subsection \<open>Replies to thrown errors\<close>

text \<open>
  The response schemas that the route declares: for status 200 an object with the string
  \<open>quoteId\<close>, for 401 and for 500 an object with the boolean \<open>error\<close> and the string
  \<open>message\<close>. No schema is declared for the other statuses.
\<close>

datatype json_type = TBoolean | TString

definition response_schema :: "nat \<Rightarrow> (string \<times> json_type) list option" where
  "response_schema status =
     (if status = 200 then Some [(''quoteId'', TString)]
      else if status = 401 \<or> status = 500 then
        Some [(''error'', TBoolean), (''message'', TString)]
      else None)"

text \<open>
  A payload sent under a declared schema is written with the declared properties only,
  each at its declared type: a boolean property holds the truth value of what the payload
  has there, and a property the payload does not have is left out. The string properties
  of this program hold strings, the only case given.
\<close>

fun coerce :: "json_type \<Rightarrow> jsval \<Rightarrow> jsval" where
  "coerce TBoolean v = JBool (truthy v)"
| "coerce TString (JStr s) = JStr s"

fun serialize_object :: "(string \<times> json_type) list \<Rightarrow> jsval \<Rightarrow> (string \<times> jsval) list" where
  "serialize_object [] obj = []"
| "serialize_object ((name, ty) # props) obj =
     (if get_prop obj name = JUndefined then serialize_object props obj
      else (name, coerce ty (get_prop obj name)) # serialize_object props obj)"

definition serialize_reply :: "reply \<Rightarrow> reply" where
  "serialize_reply r =
     (case response_schema (code r) of
        None \<Rightarrow> r
      | Some props \<Rightarrow> r\<lparr>payload := JObj (serialize_object props (payload r))\<rparr>)"

text \<open>
  The sources set no error handler, so an error thrown by the hook goes to the
  framework's default one: the status is the \<open>statusCode\<close> of the error, the payload is
  an object with the properties \<open>statusCode\<close>, \<open>error\<close> (the reason phrase of the status)
  and \<open>message\<close>, and it is sent under the schema the route declares for that status.
\<close>

definition status_text :: "nat \<Rightarrow> string" where
  "status_text n =
     (if n = 400 then ''Bad Request'' else if n = 401 then ''Unauthorized''
      else if n = 404 then ''Not Found'' else if n = 500 then ''Internal Server Error''
      else [])"

definition default_error_reply :: "jserror \<Rightarrow> reply" where
  "default_error_reply e =
     serialize_reply
       \<lparr>code = status_or_500 e,
        payload = JObj [(''statusCode'', JNum (Fin (of_nat (status_or_500 e)))),
                        (''error'', JStr (status_text (status_or_500 e))),
                        (''message'', JStr (message e))]\<rparr>"

section \<open>The SDK's commit over a backing store\<close>

text \<open>
  Modelled from the spec: \<open>org.dataApi.commitUnitOfWork\<close>, missing from the sources, as
  the committer of the specification over a given store: an error of the commit is
  thrown, a result mapping is returned.
\<close>

definition sdk_commit :: "nat \<Rightarrow> (wire_op list \<Rightarrow> store_reply) \<Rightarrow> unit_of_work \<Rightarrow> commit_outcome" where
  "sdk_commit op_ceiling store uow =
     (case commit_result (commit op_ceiling store uow) of
        Inl e \<Rightarrow> CommitThrows (thrown e)
      | Inr res \<Rightarrow> CommitReturns res)"

text \<open>The client of one request: the query answers with the given records.\<close>

definition sdk_org :: "nat \<Rightarrow> (wire_op list \<Rightarrow> store_reply) \<Rightarrow> jsval list \<Rightarrow> org" where
  "sdk_org op_ceiling store records =
     \<lparr>query = (\<lambda>q. QueryReturns records), commitUnitOfWork = sdk_commit op_ceiling store\<rparr>"

subsection \<open>A fake backing store\<close>









section \<open>The batch of a request in closed form\<close>

text \<open>
  What \<open>buildBatch\<close> computes, written as a list: the Quote under token 0, then one
  QuoteLineItem per record under the tokens 1, 2, ... The lemma \<open>buildBatch_closed_form\<close>
  below proves the two equal.
\<close>

definition quote_ref :: pending_reference where
  "quote_ref = \<lparr>token = 0, record_type = ''Quote''\<rparr>"

definition quote_entry :: "quote_request \<Rightarrow> pending_reference \<times> operation" where
  "quote_entry request =
     (quote_ref,
      \<lparr>op_kind = Create, op_type = ''Quote'',
       op_fields = [(''Name'', Lit (JStr ''New Quote'')),
                    (''OpportunityId'', Lit (JStr (opportunityId request)))],
       op_id = None\<rparr>)"

fun line_item_entries :: "jsval \<Rightarrow> nat \<Rightarrow> jsval list \<Rightarrow> (pending_reference \<times> operation) list" where
  "line_item_entries cfg n [] = []"
| "line_item_entries cfg n (r # rs) =
     (\<lparr>token = n, record_type = ''QuoteLineItem''\<rparr>,
      \<lparr>op_kind = Create, op_type = ''QuoteLineItem'',
       op_fields = lineItemFields cfg discountRate quote_ref r, op_id = None\<rparr>)
     # line_item_entries cfg (Suc n) rs"

definition request_batch :: "jsval \<Rightarrow> quote_request \<Rightarrow> jsval list \<Rightarrow> unit_of_work" where
  "request_batch cfg request records =
     \<lparr>entries = quote_entry request # line_item_entries cfg 1 records, state = OPEN\<rparr>"

text \<open>Projections used to state properties of batches and of the fake store.\<close>

definition unit_prices :: "unit_of_work \<Rightarrow> opval option list" where
  "unit_prices uow = map (\<lambda>e. map_of (op_fields (snd e)) ''UnitPrice'') (entries uow)"





section \<open>Scenarios\<close>

text \<open>Concrete environments, clients and records for the examples below.\<close>

definition env_overrides :: "string \<rightharpoonup> string" where
  "env_overrides = [''ENABLE_DISCOUNT_OVERRIDES'' \<mapsto> ''True'']"

definition no_items_client :: org where
  "no_items_client =
     \<lparr>query = (\<lambda>q. QueryReturns []), commitUnitOfWork = (\<lambda>u. CommitReturns [])\<rparr>"

definition overridden_record :: jsval where
  "overridden_record =
     JObj [(''Id'', JStr ''00k1''), (''Product2Id'', JStr ''01t1''), (''Quantity'', JNum (Fin 2)),
           (''UnitPrice'', JNum (Fin 100)), (''PricebookEntryId'', JStr ''01u1''),
           (''DiscountOverride__c'', JNum (Fin 20))]"

definition example_id :: "nat \<Rightarrow> string" where
  "example_id n = ''id-'' @ replicate (Suc n) (CHR ''x'')"

definition example_request :: http_request where
  "example_request =
     \<lparr>headers = [(''x-client-context'', ''eyJvcmdJZCI6IjAwRCJ9'')],
      body = \<lparr>opportunityId = ''006A''\<rparr>\<rparr>"

definition anonymous_request :: http_request where
  "anonymous_request = \<lparr>headers = [], body = \<lparr>opportunityId = ''006A''\<rparr>\<rparr>"

text \<open>A \<open>parseRequest\<close> that throws when the \<open>x-client-context\<close> header is missing.\<close>

definition example_parse ::
  "org \<Rightarrow> (string \<times> string) list \<Rightarrow> quote_request \<Rightarrow> jserror + org" where
  "example_parse client hdrs b =
     (case map_of hdrs ''x-client-context'' of
        None \<Rightarrow> Inl (js_Error ''Required x-client-context header not found'')
      | Some ctx \<Rightarrow> Inr client)"

definition plain_record :: jsval where
  "plain_record =
     JObj [(''Id'', JStr ''00k1''), (''Product2Id'', JStr ''01t1''), (''Quantity'', JNum (Fin 2)),
           (''UnitPrice'', JNum (Fin 100)), (''PricebookEntryId'', JStr ''01u1'')]"

definition zero_quantity_record :: jsval where
  "zero_quantity_record =
     JObj [(''Id'', JStr ''00k2''), (''Product2Id'', JStr ''01t2''), (''Quantity'', JNum (Fin 0)),
           (''UnitPrice'', JNum (Fin 100)), (''PricebookEntryId'', JStr ''01u2'')]"

definition text_quantity_record :: jsval where
  "text_quantity_record =
     JObj [(''Id'', JStr ''00k3''), (''Product2Id'', JStr ''01t3''), (''Quantity'', JStr ''n/a''),
           (''UnitPrice'', JNum (Fin 100)), (''PricebookEntryId'', JStr ''01u3'')]"

definition permission_denied :: store_error where
  "permission_denied =
     \<lparr>error_code = ''INVALID_FIELD_FOR_INSERT_UPDATE'',
      error_text = ''Unable to create/update fields: UnitPrice''\<rparr>"

text \<open>A store that rejects the operation with reference 1 and accepts the others.\<close>

definition rejecting_store :: "wire_op list \<Rightarrow> store_reply" where
  "rejecting_store wire =
     Response (map (\<lambda>w. (w_ref w, if w_ref w = 1 then Failure [permission_denied]
                                     else Success (example_id (w_ref w)))) wire)"

text \<open>A store whose response holds a result for the operation with reference 0 only.\<close>

definition forgetful_store :: "wire_op list \<Rightarrow> store_reply" where
  "forgetful_store wire = Response [(0, Success (example_id 0))]"

text \<open>A client whose commit throws what the store reported.\<close>

definition throwing_client :: org where
  "throwing_client =
     \<lparr>query = (\<lambda>q. QueryReturns [plain_record]),
      commitUnitOfWork =
        (\<lambda>u. CommitThrows
                (js_Error ''INVALID_FIELD_FOR_INSERT_UPDATE: Unable to create/update fields: UnitPrice''))\<rparr>"

definition default_config :: jsval where
  "default_config = config Map.empty"

definition overrides_config :: jsval where
  "overrides_config = config env_overrides"

definition example_quote_request :: quote_request where
  "example_quote_request = \<lparr>opportunityId = ''006A''\<rparr>"

text \<open>The batch of \<open>example_quote_request\<close> for the one record \<open>plain_record\<close>.\<close>

definition example_batch :: unit_of_work where
  "example_batch =
     \<lparr>entries =
        [(\<lparr>token = 0, record_type = ''Quote''\<rparr>,
          \<lparr>op_kind = Create, op_type = ''Quote'',
           op_fields = [(''Name'', Lit (JStr ''New Quote'')),
                        (''OpportunityId'', Lit (JStr ''006A''))],
           op_id = None\<rparr>),
         (\<lparr>token = 1, record_type = ''QuoteLineItem''\<rparr>,
          \<lparr>op_kind = Create, op_type = ''QuoteLineItem'',
           op_fields = [(''QuoteId'', Placeholder 0),
                        (''PricebookEntryId'', Lit (JStr ''01u1'')),
                        (''Quantity'', Lit (JNum (Fin 2))),
                        (''UnitPrice'', Lit (JNum (Fin 90)))],
           op_id = None\<rparr>)],
      state = OPEN\<rparr>"

text \<open>Clients given by what their calls return.\<close>

definition accepting_client :: org where
  "accepting_client =
     \<lparr>query = (\<lambda>q. QueryReturns [plain_record]),
      commitUnitOfWork =
        (\<lambda>u. CommitReturns
                [(\<lparr>token = 0, record_type = ''Quote''\<rparr>, Success ''0Q0am000000nRLdCAM''),
                 (\<lparr>token = 1, record_type = ''QuoteLineItem''\<rparr>,
                  Success ''0QLam000000nRLeCAM'')])\<rparr>"




definition unguarded_client :: org where
  "unguarded_client =
     \<lparr>query = (\<lambda>q. QueryReturns [zero_quantity_record, text_quantity_record]),
      commitUnitOfWork =
        (\<lambda>u. CommitReturns
                [(\<lparr>token = 0, record_type = ''Quote''\<rparr>, Success ''0Q0am000000nRLdCAM''),
                 (\<lparr>token = 1, record_type = ''QuoteLineItem''\<rparr>,
                  Success ''0QLam000000nRLeCAM''),
                 (\<lparr>token = 2, record_type = ''QuoteLineItem''\<rparr>,
                  Success ''0QLam000000nRLfCAM'')])\<rparr>"

section \<open>Properties\<close>

subsection \<open>The discount table\<close>

text \<open>
  Claim C9. The baseline discount rate of every request is exactly 0.10: the region is
  the constant \<open>US\<close>, which the table maps to 0.10. \<open>getDiscountForRegion\<close> returns
  0.0 only for a region code that is not in the table; it does return 0.0 for every
  code that is neither in the table nor a member inherited from \<open>Object.prototype\<close>.
\<close>

theorem baseline_discount_rate:
  "discountRate = Fin (10 / 100)
   \<and> getDiscountForRegion ''US'' = JNum (Fin (10 / 100))
   \<and> (getDiscountForRegion region = JNum (Fin 0) \<longrightarrow> region \<notin> {''US'', ''EU'', ''APAC''})
   \<and> (region \<notin> {''US'', ''EU'', ''APAC''} \<and> region \<notin> set object_prototype
        \<longrightarrow> getDiscountForRegion region = JNum (Fin 0))"
proof -
  have us: "getDiscountForRegion ''US'' = JNum (Fin (10 / 100))"
    by (simp add: getDiscountForRegion_def discounts_def js_or_def)
  have rate: "discountRate = Fin (10 / 100)"
    by (simp add: discountRate_def us)
  have only: "getDiscountForRegion region = JNum (Fin 0) \<longrightarrow> region \<notin> {''US'', ''EU'', ''APAC''}"
    by (auto simp: getDiscountForRegion_def discounts_def js_or_def)
  have absent: "region \<notin> {''US'', ''EU'', ''APAC''} \<and> region \<notin> set object_prototype
        \<longrightarrow> getDiscountForRegion region = JNum (Fin 0)"
    by (simp add: getDiscountForRegion_def discounts_def js_or_def)
  from us rate only absent show ?thesis by blast
qed

theorem baseline_discount_rate_witness:
  "getDiscountForRegion ''MARS'' = JNum (Fin 0) \<and> ''MARS'' \<notin> {''US'', ''EU'', ''APAC''}
   \<and> ''MARS'' \<notin> set object_prototype"
proof -
  have a: "''MARS'' \<notin> {''US'', ''EU'', ''APAC''} \<and> ''MARS'' \<notin> set object_prototype"
    by (simp add: object_prototype_def)
  with baseline_discount_rate [of "''MARS''"] show ?thesis by blast
qed

subsection \<open>No line items\<close>

text \<open>
  Claim C3. When the query for the line items of an opportunity returns no record,
  \<open>generateQuote\<close> throws an error with status 404 whose message ends with the
  opportunity identifier, and the query is the only call it has made: no unit of work
  was created and nothing was committed.
\<close>

theorem no_line_items_not_found:
  assumes "query client (soql cfg request) = QueryReturns []"
  shows "generateQuote cfg request client =
           (Inl \<lparr>message = ''No OpportunityLineItems found for Opportunity ID: ''
                            @ opportunityId request,
                 statusCode = Some 404\<rparr>,
            [Query (soql cfg request)])
         \<and> sublist (opportunityId request)
             (''No OpportunityLineItems found for Opportunity ID: '' @ opportunityId request)"
proof
  show "generateQuote cfg request client =
           (Inl \<lparr>message = ''No OpportunityLineItems found for Opportunity ID: ''
                            @ opportunityId request,
                 statusCode = Some 404\<rparr>,
            [Query (soql cfg request)])"
    using assms
    by (simp add: generateQuote_def generateQuote_try_def not_found_error_def unexpected_def
        has_status_def)
next
  have "suffix (opportunityId request)
          (''No OpportunityLineItems found for Opportunity ID: '' @ opportunityId request)"
    by (rule suffix_appendI) (rule suffix_order.refl)
  then show "sublist (opportunityId request)
          (''No OpportunityLineItems found for Opportunity ID: '' @ opportunityId request)"
    by (rule suffix_imp_sublist)
qed

theorem no_line_items_not_found_witness:
  "query no_items_client (soql (config Map.empty) \<lparr>opportunityId = ''006A''\<rparr>) = QueryReturns []
   \<and> generateQuote (config Map.empty) \<lparr>opportunityId = ''006A''\<rparr> no_items_client =
       (Inl \<lparr>message = ''No OpportunityLineItems found for Opportunity ID: 006A'',
             statusCode = Some 404\<rparr>,
        [Query (soql (config Map.empty) \<lparr>opportunityId = ''006A''\<rparr>)])"
proof -
  have q: "query no_items_client (soql (config Map.empty) \<lparr>opportunityId = ''006A''\<rparr>)
             = QueryReturns []"
    by (simp add: no_items_client_def)
  from no_line_items_not_found [OF q] q show ?thesis by simp
qed

subsection \<open>Discount overrides\<close>

lemma config_has_no_top_level_flag:
  "get_prop (config env) ''enableDiscountOverrides'' = JUndefined"
  by (simp add: config_def object_prototype_def)

text \<open>
  Claim C6. With \<open>ENABLE_DISCOUNT_OVERRIDES=True\<close> the flag under \<open>config.features\<close> is
  set and the query asks for \<open>DiscountOverride__c\<close>, but the line-item computation reads
  \<open>config.enableDiscountOverrides\<close>, which does not exist: for a record with an override
  of 20 the effective rate stays the regional 0.10, not 20 / 100, and the unit price
  registered for a unit price of 100 is 90, not 80.
\<close>

theorem discount_override_not_applied:
  "truthy (get_prop (get_prop overrides_config ''features'') ''enableDiscountOverrides'')
   \<and> query_fields overrides_config
       = [''Id'', ''Product2Id'', ''Quantity'', ''UnitPrice'', ''PricebookEntryId'',
          ''DiscountOverride__c'']
   \<and> truthy (get_prop overridden_record ''DiscountOverride__c'')
   \<and> effectiveDiscountRate overrides_config discountRate overridden_record = Fin (10 / 100)
   \<and> js_div (parseFloat (get_prop overridden_record ''DiscountOverride__c'')) (Fin 100)
       = Fin (20 / 100)
   \<and> map_of (lineItemFields overrides_config discountRate
                \<lparr>token = 0, record_type = ''Quote''\<rparr> overridden_record) ''UnitPrice''
       = Some (Lit (JNum (Fin 90)))"
  by (simp add: overrides_config_def config_def env_overrides_def env_get_def query_fields_def
      object_prototype_def
      overridden_record_def effectiveDiscountRate_def js_and_def lineItemFields_def
      toApiString_def discountRate_def getDiscountForRegion_def discounts_def js_or_def)


subsection \<open>The batch built for a request\<close>

lemma registerCreate_open:
  "state uow = OPEN \<Longrightarrow>
   registerCreate uow rtype flds =
     Inr (\<lparr>token = length (entries uow), record_type = rtype\<rparr>,
          uow\<lparr>entries := entries uow
                  @ [(\<lparr>token = length (entries uow), record_type = rtype\<rparr>,
                      \<lparr>op_kind = Create, op_type = rtype, op_fields = flds, op_id = None\<rparr>)]\<rparr>)"
  by (simp add: registerCreate_def register_def create_reference_def Let_def)

lemma registerLineItems_closed_form:
  "state uow = OPEN \<Longrightarrow>
   registerLineItems cfg discountRate quote_ref records uow =
     Inr (uow\<lparr>entries := entries uow @ line_item_entries cfg (length (entries uow)) records\<rparr>)"
proof (induction records arbitrary: uow)
  case Nil
  then show ?case by simp
next
  case (Cons r rs)
  let ?uow' = "uow\<lparr>entries := entries uow
                  @ [(\<lparr>token = length (entries uow), record_type = ''QuoteLineItem''\<rparr>,
                      \<lparr>op_kind = Create, op_type = ''QuoteLineItem'',
                       op_fields = lineItemFields cfg discountRate quote_ref r,
                       op_id = None\<rparr>)]\<rparr>"
  have st: "state ?uow' = OPEN" using Cons.prems by simp
  show ?case
    using Cons.prems Cons.IH [OF st]
    by (simp add: registerCreate_open)
qed

lemma buildBatch_closed_form:
  "buildBatch cfg request records = Inr (quote_ref, request_batch cfg request records)"
proof -
  have first: "registerCreate newUnitOfWork ''Quote''
                 [(''Name'', Lit (JStr ''New Quote'')),
                  (''OpportunityId'', Lit (JStr (opportunityId request)))]
               = Inr (quote_ref, \<lparr>entries = [quote_entry request], state = OPEN\<rparr>)"
    by (simp add: registerCreate_open newUnitOfWork_def quote_ref_def quote_entry_def)
  have rest: "registerLineItems cfg discountRate quote_ref records
                \<lparr>entries = [quote_entry request], state = OPEN\<rparr>
              = Inr (request_batch cfg request records)"
    by (simp add: registerLineItems_closed_form request_batch_def)
  show ?thesis
    by (simp add: buildBatch_def first rest)
qed

lemma generateQuote_commits:
  assumes "query client (soql cfg request) = QueryReturns records" and "records \<noteq> []"
  shows "generateQuote_try cfg request client =
           (commitQuote client quote_ref (request_batch cfg request records),
            [Query (soql cfg request), NewUnitOfWork,
             CommitUnitOfWork (request_batch cfg request records)])"
  using assms by (simp add: generateQuote_try_def buildBatch_closed_form)

lemma commit_failed_has_status: "unexpected (commit_failed e) = commit_failed e"
  by (simp add: unexpected_def commit_failed_def has_status_def)


lemma request_rebuilt: "\<lparr>opportunityId = opportunityId b\<rparr> = (b :: quote_request)"
  by (cases b) simp

lemma handler_success:
  assumes "query client (soql cfg (body request)) = QueryReturns records" and "records \<noteq> []"
    and "commitUnitOfWork client (request_batch cfg (body request) records) = CommitReturns results"
    and "map_of results quote_ref = Some r"
  shows "handler cfg (Some client) request = \<lparr>code = 200, payload = JObj [(''quoteId'', result_id r)]\<rparr>"
  using assms
  by (simp add: handler_def generateQuote_def request_rebuilt generateQuote_commits
      commitQuote_def)

lemma example_batch_built:
  "buildBatch default_config (body example_request) [plain_record] = Inr (quote_ref, example_batch)"
  by (simp add: buildBatch_closed_form request_batch_def quote_ref_def quote_entry_def
      lineItemFields_def toApiString_def plain_record_def effectiveDiscountRate_def
      default_config_def config_def js_and_def object_prototype_def discountRate_def
      getDiscountForRegion_def discounts_def js_or_def example_batch_def example_request_def)

lemma accepting_client_commit:
  "commitUnitOfWork accepting_client example_batch
     = CommitReturns [(quote_ref, Success ''0Q0am000000nRLdCAM''),
                      (\<lparr>token = 1, record_type = ''QuoteLineItem''\<rparr>,
                       Success ''0QLam000000nRLeCAM'')]"
  by (simp add: accepting_client_def quote_ref_def)

subsection \<open>The route\<close>

text \<open>
  Claim C7. A request whose credentials parse, whose opportunity has line items and
  whose commit returns a result map with a success for the Quote's reference is answered
  with status 200 and the body \<open>{quoteId}\<close>, the identifier the backing store assigned
  to the Quote.
\<close>

theorem quote_generated_200:
  assumes "parseRequest (headers request) (body request) = Inr client"
    and "query client (soql cfg (body request)) = QueryReturns records"
    and "records \<noteq> []"
    and "buildBatch cfg (body request) records = Inr (quoteRef, uow)"
    and "commitUnitOfWork client uow = CommitReturns results"
    and "map_of results quoteRef = Some (Success qid)"
  shows "handleRequest errorHandler parseRequest cfg request
           = \<lparr>code = 200, payload = JObj [(''quoteId'', JStr qid)]\<rparr>"
proof -
  from assms(4) have q: "quoteRef = quote_ref" and u: "uow = request_batch cfg (body request) records"
    by (simp_all add: buildBatch_closed_form)
  have "handler cfg (Some client) request
          = \<lparr>code = 200, payload = JObj [(''quoteId'', result_id (Success qid))]\<rparr>"
    using assms(2,3,5,6) unfolding q u by (rule handler_success)
  then show ?thesis
    using assms(1) by (simp add: handleRequest_def preHandler_def)
qed


theorem quote_generated_200_witness:
  "example_parse accepting_client (headers example_request) (body example_request)
     = Inr accepting_client
   \<and> query accepting_client (soql default_config (body example_request))
     = QueryReturns [plain_record]
   \<and> buildBatch default_config (body example_request) [plain_record]
     = Inr (quote_ref, example_batch)
   \<and> commitUnitOfWork accepting_client example_batch
     = CommitReturns [(quote_ref, Success ''0Q0am000000nRLdCAM''),
                      (\<lparr>token = 1, record_type = ''QuoteLineItem''\<rparr>,
                       Success ''0QLam000000nRLeCAM'')]
   \<and> handleRequest default_error_reply (example_parse accepting_client) default_config
       example_request
     = \<lparr>code = 200, payload = JObj [(''quoteId'', JStr ''0Q0am000000nRLdCAM'')]\<rparr>"
proof -
  have h1: "example_parse accepting_client (headers example_request) (body example_request)
              = Inr accepting_client"
    by (simp add: example_parse_def example_request_def)
  have h2: "query accepting_client (soql default_config (body example_request))
              = QueryReturns [plain_record]"
    by (simp add: accepting_client_def)
  have h3: "[plain_record] \<noteq> []" by simp
  have h6: "map_of [(quote_ref, Success ''0Q0am000000nRLdCAM''),
                    (\<lparr>token = 1, record_type = ''QuoteLineItem''\<rparr>,
                     Success ''0QLam000000nRLeCAM'')] quote_ref
              = Some (Success ''0Q0am000000nRLdCAM'')"
    by simp
  from quote_generated_200 [where parseRequest = "example_parse accepting_client"
      and request = example_request, OF h1 h2 h3 example_batch_built accepting_client_commit h6]
    h1 h2 example_batch_built accepting_client_commit
  show ?thesis by simp
qed

text \<open>
  Claim C4. A rejection of an operation by the store reaches \<open>generateQuote\<close> as an
  error that \<open>commitUnitOfWork\<close> throws, its message the text the store reported.
  Whenever that happens, the error is wrapped with status 400 and the message
  \<open>Failed to create quote: \<close> followed by the text of the thrown error, and the route
  replies with status 400 and \<open>{error: true, message}\<close>.
\<close>

theorem commit_error_replied_400:
  assumes "parseRequest (headers request) (body request) = Inr client"
    and "query client (soql cfg (body request)) = QueryReturns records"
    and "records \<noteq> []"
    and "buildBatch cfg (body request) records = Inr (quoteRef, uow)"
    and "commitUnitOfWork client uow = CommitThrows commitError"
  shows "fst (generateQuote cfg (body request) client)
           = Inl \<lparr>message = ''Failed to create quote: '' @ message commitError,
                  statusCode = Some 400\<rparr>
         \<and> handleRequest errorHandler parseRequest cfg request
           = \<lparr>code = 400,
              payload = JObj [(''error'', JBool True),
                              (''message'',
                               JStr (''Failed to create quote: '' @ message commitError))]\<rparr>
         \<and> sublist (message commitError) (''Failed to create quote: '' @ message commitError)"
proof -
  from assms(4) have u: "uow = request_batch cfg (body request) records"
    by (simp add: buildBatch_closed_form)
  have thrown: "generateQuote_try cfg (body request) client
                  = (Inl (commit_failed commitError),
                     [Query (soql cfg (body request)), NewUnitOfWork,
                      CommitUnitOfWork (request_batch cfg (body request) records)])"
    using assms(5) unfolding u
    by (simp add: generateQuote_commits [OF assms(2,3)] commitQuote_def)
  have gq: "fst (generateQuote cfg (body request) client) = Inl (commit_failed commitError)"
    by (simp add: generateQuote_def thrown commit_failed_has_status)
  have st: "status_or_500 (commit_failed commitError) = 400"
    by (simp add: status_or_500_def has_status_def commit_failed_def)
  have "handler cfg (Some client) request
          = \<lparr>code = 400, payload = error_payload (message (commit_failed commitError))\<rparr>"
    by (simp add: handler_def request_rebuilt gq st)
  then have hr: "handleRequest errorHandler parseRequest cfg request
          = \<lparr>code = 400,
             payload = JObj [(''error'', JBool True),
                             (''message'',
                              JStr (''Failed to create quote: '' @ message commitError))]\<rparr>"
    using assms(1)
    by (simp add: handleRequest_def preHandler_def error_payload_def commit_failed_def)
  have "suffix (message commitError) (''Failed to create quote: '' @ message commitError)"
    by (rule suffix_appendI) (rule suffix_order.refl)
  then have sub: "sublist (message commitError)
                    (''Failed to create quote: '' @ message commitError)"
    by (rule suffix_imp_sublist)
  from gq hr sub show ?thesis by (simp add: commit_failed_def)
qed

theorem commit_error_replied_400_witness:
  "example_parse throwing_client (headers example_request) (body example_request)
     = Inr throwing_client
   \<and> query throwing_client (soql default_config (body example_request))
     = QueryReturns [plain_record]
   \<and> buildBatch default_config (body example_request) [plain_record]
     = Inr (quote_ref, example_batch)
   \<and> commitUnitOfWork throwing_client example_batch
     = CommitThrows
         (js_Error ''INVALID_FIELD_FOR_INSERT_UPDATE: Unable to create/update fields: UnitPrice'')
   \<and> handleRequest default_error_reply (example_parse throwing_client) default_config
       example_request
     = \<lparr>code = 400,
        payload =
          JObj [(''error'', JBool True),
                (''message'',
                 JStr (''Failed to create quote: ''
                       @ ''INVALID_FIELD_FOR_INSERT_UPDATE: Unable to create/update fields: UnitPrice''))]\<rparr>"
proof -
  have h1: "example_parse throwing_client (headers example_request) (body example_request)
              = Inr throwing_client"
    by (simp add: example_parse_def example_request_def)
  have h2: "query throwing_client (soql default_config (body example_request))
              = QueryReturns [plain_record]"
    by (simp add: throwing_client_def)
  have h3: "[plain_record] \<noteq> []" by simp
  have h5: "commitUnitOfWork throwing_client example_batch
              = CommitThrows
                  (js_Error ''INVALID_FIELD_FOR_INSERT_UPDATE: Unable to create/update fields: UnitPrice'')"
    by (simp add: throwing_client_def)
  have m: "message (js_Error ''INVALID_FIELD_FOR_INSERT_UPDATE: Unable to create/update fields: UnitPrice'')
             = ''INVALID_FIELD_FOR_INSERT_UPDATE: Unable to create/update fields: UnitPrice''"
    by (simp add: js_Error_def)
  from commit_error_replied_400 [where parseRequest = "example_parse throwing_client"
      and request = example_request and errorHandler = default_error_reply,
      OF h1 h2 h3 example_batch_built h5]
  have "handleRequest default_error_reply (example_parse throwing_client) default_config
          example_request
        = \<lparr>code = 400,
           payload =
             JObj [(''error'', JBool True),
                   (''message'',
                    JStr (''Failed to create quote: ''
                          @ ''INVALID_FIELD_FOR_INSERT_UPDATE: Unable to create/update fields: UnitPrice''))]\<rparr>"
    unfolding m by blast
  with h1 h2 example_batch_built h5 show ?thesis by blast
qed

lemma unauthorized_reply:
  "default_error_reply \<lparr>message = msg, statusCode = Some 401\<rparr>
     = \<lparr>code = 401, payload = JObj [(''error'', JBool True), (''message'', JStr msg)]\<rparr>"
  by (simp add: default_error_reply_def serialize_reply_def response_schema_def
      status_or_500_def has_status_def status_text_def)

text \<open>
  Claim C8. When \<open>parseRequest\<close> throws, because the \<open>x-client-context\<close> bundle is
  missing or does not parse, the preHandler throws an error with status 401 and a fixed
  message, and the reply is 401 with the body \<open>{error: true, message}\<close> whose message is
  that fixed text: it depends neither on the headers nor on the error caught. The
  handler's own guard replies 401 with the same shape and another fixed message when
  \<open>request.salesforce\<close> is not set.
\<close>

theorem credentials_rejected_401:
  assumes "parseRequest (headers request) (body request) = Inl parseError"
  shows "handleRequest default_error_reply parseRequest cfg request
           = \<lparr>code = 401,
              payload = JObj [(''error'', JBool True),
                              (''message'', JStr ''Failed to initialize Salesforce client'')]\<rparr>
         \<and> preHandler parseRequest request
           = Inl \<lparr>message = ''Failed to initialize Salesforce client'', statusCode = Some 401\<rparr>
         \<and> handler cfg None request
           = \<lparr>code = 401,
              payload = JObj [(''error'', JBool True),
                              (''message'', JStr ''Salesforce client not initialized'')]\<rparr>"
proof -
  have pre: "preHandler parseRequest request
           = Inl \<lparr>message = ''Failed to initialize Salesforce client'', statusCode = Some 401\<rparr>"
    using assms by (simp add: preHandler_def)
  have "handleRequest default_error_reply parseRequest cfg request
          = default_error_reply
              \<lparr>message = ''Failed to initialize Salesforce client'', statusCode = Some 401\<rparr>"
    by (simp add: handleRequest_def pre)
  then have whole: "handleRequest default_error_reply parseRequest cfg request
           = \<lparr>code = 401,
              payload = JObj [(''error'', JBool True),
                              (''message'', JStr ''Failed to initialize Salesforce client'')]\<rparr>"
    by (simp only: unauthorized_reply)
  have guard: "handler cfg None request
           = \<lparr>code = 401,
              payload = JObj [(''error'', JBool True),
                              (''message'', JStr ''Salesforce client not initialized'')]\<rparr>"
    by (simp add: handler_def error_payload_def)
  from whole pre guard show ?thesis by blast
qed

theorem credentials_rejected_401_witness:
  "example_parse accepting_client (headers anonymous_request) (body anonymous_request)
     = Inl (js_Error ''Required x-client-context header not found'')
   \<and> handleRequest default_error_reply (example_parse accepting_client) default_config
       anonymous_request
     = \<lparr>code = 401,
        payload = JObj [(''error'', JBool True),
                        (''message'', JStr ''Failed to initialize Salesforce client'')]\<rparr>"
proof -
  have h: "example_parse accepting_client (headers anonymous_request) (body anonymous_request)
             = Inl (js_Error ''Required x-client-context header not found'')"
    by (simp add: example_parse_def anonymous_request_def)
  from credentials_rejected_401 [where parseRequest = "example_parse accepting_client"
      and request = anonymous_request and cfg = default_config, OF h] h
  show ?thesis by blast
qed

subsection \<open>Unit price\<close>

lemma unguarded_prices:
  "unit_prices (request_batch default_config example_quote_request
                  [zero_quantity_record, text_quantity_record])
     = [None, Some (Lit (JNum NaN)), Some (Lit (JNum NaN))]"
  by (simp add: unit_prices_def request_batch_def quote_entry_def lineItemFields_def
      zero_quantity_record_def text_quantity_record_def parseFloat_string_def is_space_def
      str_unsigned_decimal_def starts_with_def is_digit_def signed_inf_def
      effectiveDiscountRate_def default_config_def config_def js_and_def object_prototype_def
      discountRate_def getDiscountForRegion_def discounts_def js_or_def Let_def)

lemma unguarded_commit:
  "map_of (case commitUnitOfWork unguarded_client u of CommitReturns results \<Rightarrow> results) quote_ref
     = Some (Success ''0Q0am000000nRLdCAM'')
   \<and> (\<exists>results. commitUnitOfWork unguarded_client u = CommitReturns results)"
  by (simp add: unguarded_client_def quote_ref_def)

text \<open>
  Claim C10. The unit price is the discounted price divided by the quantity, with no
  guard: for a record whose quantity is 0 and for a record whose quantity is the text
  \<open>n/a\<close>, the QuoteLineItem registered has the unit price \<open>NaN\<close>, the batch is
  committed with it and \<open>generateQuote\<close> returns without an error.
\<close>

theorem unit_price_not_finite:
  "\<exists>uow. generateQuote default_config example_quote_request unguarded_client
           = (Inr \<lparr>quoteId = JStr ''0Q0am000000nRLdCAM''\<rparr>,
              [Query (soql default_config example_quote_request), NewUnitOfWork,
               CommitUnitOfWork uow])
       \<and> unit_prices uow = [None, Some (Lit (JNum NaN)), Some (Lit (JNum NaN))]
       \<and> \<not> is_finite NaN
       \<and> parseFloat (get_prop zero_quantity_record ''Quantity'') = Fin 0
       \<and> parseFloat (get_prop text_quantity_record ''Quantity'') = NaN"
proof -
  let ?uow = "request_batch default_config example_quote_request
                [zero_quantity_record, text_quantity_record]"
  have q: "query unguarded_client (soql default_config example_quote_request)
             = QueryReturns [zero_quantity_record, text_quantity_record]"
    by (simp add: unguarded_client_def)
  from unguarded_commit [of ?uow]
  obtain results where cm: "commitUnitOfWork unguarded_client ?uow = CommitReturns results"
    and first: "map_of results quote_ref = Some (Success ''0Q0am000000nRLdCAM'')"
    by auto
  have "generateQuote_try default_config example_quote_request unguarded_client
          = (commitQuote unguarded_client quote_ref ?uow,
             [Query (soql default_config example_quote_request), NewUnitOfWork,
              CommitUnitOfWork ?uow])"
    by (rule generateQuote_commits [OF q]) simp
  then have gq: "generateQuote default_config example_quote_request unguarded_client
          = (Inr \<lparr>quoteId = JStr ''0Q0am000000nRLdCAM''\<rparr>,
             [Query (soql default_config example_quote_request), NewUnitOfWork,
              CommitUnitOfWork ?uow])"
    by (simp add: generateQuote_def commitQuote_def cm first)
  have z: "parseFloat (get_prop zero_quantity_record ''Quantity'') = Fin 0"
    by (simp add: zero_quantity_record_def)
  have t: "parseFloat (get_prop text_quantity_record ''Quantity'') = NaN"
    by (simp add: text_quantity_record_def parseFloat_string_def is_space_def
        str_unsigned_decimal_def starts_with_def is_digit_def Let_def)
  from gq unguarded_prices z t show ?thesis by auto
qed

subsection \<open>The committer\<close>

lemma register_returns_handle:
  "register uow opn = Inr (h, uow') \<Longrightarrow> handles uow' = handles uow @ [h]"
  by (auto simp: register_def handles_def Let_def split: if_splits)

















text \<open>
  Claim C5. The commit validates first: a batch that is empty or not below the
  operation-count ceiling fails with \<open>BatchTooLargeError\<close>, the batch is left as it was
  and no request has been sent to the store; a batch that is non-empty and below the
  ceiling never fails with that error.
\<close>

theorem commit_validates_first:
  "(entries uow = [] \<or> op_ceiling \<le> length (entries uow) \<longrightarrow>
      commit op_ceiling store uow
        = \<lparr>commit_result = Inl BatchTooLargeError, batch_after = uow, requests = []\<rparr>)
   \<and> (entries uow \<noteq> [] \<and> length (entries uow) < op_ceiling \<longrightarrow>
        commit_result (commit op_ceiling store uow) \<noteq> Inl BatchTooLargeError)"
proof (intro conjI impI)
  assume "entries uow = [] \<or> op_ceiling \<le> length (entries uow)"
  then show "commit op_ceiling store uow
        = \<lparr>commit_result = Inl BatchTooLargeError, batch_after = uow, requests = []\<rparr>"
    unfolding commit_def by (simp only: if_True)
next
  assume "entries uow \<noteq> [] \<and> length (entries uow) < op_ceiling"
  then show "commit_result (commit op_ceiling store uow) \<noteq> Inl BatchTooLargeError"
    by (simp add: commit_def Let_def split: store_reply.splits option.splits)
qed

theorem commit_validates_first_witness:
  "entries newUnitOfWork = []
   \<and> commit 10 forgetful_store newUnitOfWork
       = \<lparr>commit_result = Inl BatchTooLargeError, batch_after = newUnitOfWork, requests = []\<rparr>
   \<and> 2 \<le> length (entries example_batch)
   \<and> commit 2 forgetful_store example_batch
       = \<lparr>commit_result = Inl BatchTooLargeError, batch_after = example_batch, requests = []\<rparr>
   \<and> entries example_batch \<noteq> []
   \<and> length (entries example_batch) < 10
   \<and> commit_result (commit 10 forgetful_store example_batch) \<noteq> Inl BatchTooLargeError"
proof -
  have e: "entries newUnitOfWork = []" by (simp add: newUnitOfWork_def)
  have l: "length (entries example_batch) = 2" by (simp add: example_batch_def)
  have ne: "entries example_batch \<noteq> []" by (simp add: example_batch_def)
  from commit_validates_first [of newUnitOfWork 10 forgetful_store]
    commit_validates_first [of example_batch 2 forgetful_store]
    commit_validates_first [of example_batch 10 forgetful_store] e l ne
  show ?thesis by simp
qed

subsection \<open>Committing the batch of a request to the fake store\<close>















text \<open>
  A rejection by the store through this committer: the commit throws the error the store
  reported and the route replies 400 with it.
\<close>

lemma rejected_operation_replied_400:
  "handleRequest default_error_reply (example_parse (sdk_org 10 rejecting_store [plain_record]))
     default_config example_request
   = \<lparr>code = 400,
      payload =
        JObj [(''error'', JBool True),
              (''message'',
               JStr ''Failed to create quote: INVALID_FIELD_FOR_INSERT_UPDATE: Unable to create/update fields: UnitPrice'')]\<rparr>"
proof -
  have cm: "commitUnitOfWork (sdk_org 10 rejecting_store [plain_record]) example_batch
              = CommitThrows
                  (js_Error ''INVALID_FIELD_FOR_INSERT_UPDATE: Unable to create/update fields: UnitPrice'')"
    by (simp add: sdk_org_def sdk_commit_def commit_def example_batch_def references_ok_def
        handles_def embedded_refs_def serialize_def serialize_op_def rejecting_store_def
        example_id_def thrown_def permission_denied_def)
  have h1: "example_parse (sdk_org 10 rejecting_store [plain_record]) (headers example_request)
              (body example_request) = Inr (sdk_org 10 rejecting_store [plain_record])"
    by (simp add: example_parse_def example_request_def)
  have h2: "query (sdk_org 10 rejecting_store [plain_record])
              (soql default_config (body example_request)) = QueryReturns [plain_record]"
    by (simp add: sdk_org_def)
  have gt: "generateQuote_try default_config (body example_request)
              (sdk_org 10 rejecting_store [plain_record])
            = (commitQuote (sdk_org 10 rejecting_store [plain_record]) quote_ref
                 (request_batch default_config (body example_request) [plain_record]),
               [Query (soql default_config (body example_request)), NewUnitOfWork,
                CommitUnitOfWork
                  (request_batch default_config (body example_request) [plain_record])])"
    by (rule generateQuote_commits [OF h2]) simp
  have b: "request_batch default_config (body example_request) [plain_record] = example_batch"
    using example_batch_built by (simp add: buildBatch_closed_form)
  have gq: "fst (generateQuote default_config (body example_request)
                   (sdk_org 10 rejecting_store [plain_record]))
              = Inl (commit_failed
                  (js_Error ''INVALID_FIELD_FOR_INSERT_UPDATE: Unable to create/update fields: UnitPrice''))"
    by (simp add: generateQuote_def gt b commitQuote_def cm commit_failed_has_status)
  have "handler default_config (Some (sdk_org 10 rejecting_store [plain_record])) example_request
          = \<lparr>code = 400,
             payload = error_payload (message (commit_failed
               (js_Error ''INVALID_FIELD_FOR_INSERT_UPDATE: Unable to create/update fields: UnitPrice'')))\<rparr>"
    by (simp add: handler_def request_rebuilt gq status_or_500_def has_status_def
        commit_failed_def)
  then show ?thesis
    using h1
    by (simp add: handleRequest_def preHandler_def error_payload_def commit_failed_def
        js_Error_def)
qed

subsection \<open>Results missing from the result map\<close>




end
